theory Spec2Isabelle
  imports Complex_Main "HOL-Library.AList"
begin

section \<open>Python values\<close>

text \<open>
  The controller's replies, the request bodies and the usage rows are JSON documents
  whose shape the program does not check before using them, so they are modelled as
  untyped JSON values. A Python \<open>float\<close> is a rational, an infinity or a NaN (every
  finite float is a rational; the model admits more finite values than IEEE has, never
  fewer). A \<open>dict\<close> is an association list in insertion order, looked up with
  \<open>map_of\<close>; a dictionary lists each key once. A \<open>str\<close> is a list of code points
  below 256.
\<close>

datatype pyfloat = Finite rat | PosInf | NegInf | NaN

datatype json =
    JNull
  | JBool bool
  | JInt int
  | JFloat pyfloat
  | JStr string
  | JList "json list"
  | JObj "(string \<times> json) list"

text \<open>The exceptions the modelled code can raise (all are subclasses of \<open>Exception\<close>).\<close>

datatype error =
    ValueError
  | TypeError
  | AttributeError
  | KeyError
  | OverflowError
  | OSError

text \<open>Truth value of an object, as \<open>if x:\<close> and \<open>not x\<close> test it.\<close>

fun truthy :: "json \<Rightarrow> bool" where
  "truthy JNull = False"
| "truthy (JBool b) = b"
| "truthy (JInt n) = (n \<noteq> 0)"
| "truthy (JFloat (Finite q)) = (q \<noteq> 0)"
| "truthy (JFloat _) = True"
| "truthy (JStr s) = (s \<noteq> [])"
| "truthy (JList xs) = (xs \<noteq> [])"
| "truthy (JObj kvs) = (kvs \<noteq> [])"

text \<open>
  \<open>str.strip()\<close>: the code points below 256 for which \<open>str.isspace()\<close> holds are
  9 to 13, 28 to 32, 133 and 160.
\<close>

definition is_space :: "char \<Rightarrow> bool" where
  "is_space c = ((of_char c :: nat) \<in> {9, 10, 11, 12, 13, 28, 29, 30, 31, 32, 133, 160})"

definition strip :: "string \<Rightarrow> string" where
  "strip s = rev (dropWhile is_space (rev (dropWhile is_space s)))"

text \<open>\<open>s.split(',')\<close>: one field more than there are commas, empty fields kept.\<close>

fun split_comma :: "string \<Rightarrow> string list" where
  "split_comma [] = [[]]"
| "split_comma (c # cs) =
     (if c = CHR '','' then [] # split_comma cs
      else (case split_comma cs of
              [] \<Rightarrow> [[c]]
            | w # ws \<Rightarrow> (c # w) # ws))"

text \<open>\<open>name.startswith(p)\<close>.\<close>

definition startswith :: "string \<Rightarrow> string \<Rightarrow> bool" where
  "startswith name p = (take (length p) name = p)"

text \<open>
  \<open>int(s)\<close> for a string, base 10: surrounding white space is dropped, one sign is
  allowed, then decimal digits, where single underscores may stand between two digits.
  Anything else raises \<open>ValueError\<close>. (The limit on the number of digits that newer
  interpreters apply to very long strings is not modelled.)
\<close>

definition is_digit :: "char \<Rightarrow> bool" where
  "is_digit c = (48 \<le> (of_char c :: nat) \<and> (of_char c :: nat) \<le> 57)"

definition digit_val :: "char \<Rightarrow> int" where
  "digit_val c = int (of_char c) - 48"

fun parse_digits :: "int \<Rightarrow> string \<Rightarrow> int option" where
  "parse_digits acc [] = Some acc"
| "parse_digits acc [c] =
     (if is_digit c then Some (acc * 10 + digit_val c) else None)"
| "parse_digits acc (c # d # cs) =
     (if is_digit c then parse_digits (acc * 10 + digit_val c) (d # cs)
      else if c = CHR ''_'' \<and> is_digit d then parse_digits acc (d # cs)
      else None)"

definition parse_unsigned :: "string \<Rightarrow> int option" where
  "parse_unsigned s =
     (case s of
        [] \<Rightarrow> None
      | c # cs \<Rightarrow> if is_digit c then parse_digits 0 s else None)"

definition int_of_str :: "string \<Rightarrow> error + int" where
  "int_of_str s =
     (case strip s of
        [] \<Rightarrow> Inl ValueError
      | c # cs \<Rightarrow>
          if c = CHR ''-'' then
            (case parse_unsigned cs of None \<Rightarrow> Inl ValueError | Some n \<Rightarrow> Inr (- n))
          else if c = CHR ''+'' then
            (case parse_unsigned cs of None \<Rightarrow> Inl ValueError | Some n \<Rightarrow> Inr n)
          else
            (case parse_unsigned (c # cs) of None \<Rightarrow> Inl ValueError | Some n \<Rightarrow> Inr n))"

text \<open>
  \<open>int(x)\<close> for any object: a float is truncated towards zero, NaN raises
  \<open>ValueError\<close>, an infinity \<open>OverflowError\<close>; \<open>None\<close>, lists and dicts raise
  \<open>TypeError\<close>.
\<close>

fun py_int :: "json \<Rightarrow> error + int" where
  "py_int JNull = Inl TypeError"
| "py_int (JBool b) = Inr (if b then 1 else 0)"
| "py_int (JInt n) = Inr n"
| "py_int (JFloat (Finite q)) = Inr (if 0 \<le> q then \<lfloor>q\<rfloor> else \<lceil>q\<rceil>)"
| "py_int (JFloat NaN) = Inl ValueError"
| "py_int (JFloat PosInf) = Inl OverflowError"
| "py_int (JFloat NegInf) = Inl OverflowError"
| "py_int (JStr s) = int_of_str s"
| "py_int (JList xs) = Inl TypeError"
| "py_int (JObj kvs) = Inl TypeError"

text \<open>\<open>x.get(k)\<close>: only a dict has the method; a missing key gives \<open>None\<close>.\<close>

fun dict_get :: "json \<Rightarrow> string \<Rightarrow> error + json option" where
  "dict_get (JObj kvs) k = Inr (map_of kvs k)"
| "dict_get _ k = Inl AttributeError"

text \<open>
  \<open>for x in v\<close>: a list gives its elements, a dict its keys, a string its characters;
  the other values are not iterable.
\<close>

fun py_iter :: "json \<Rightarrow> error + json list" where
  "py_iter (JList xs) = Inr xs"
| "py_iter (JObj kvs) = Inr (map (\<lambda>kv. JStr (fst kv)) kvs)"
| "py_iter (JStr s) = Inr (map (\<lambda>c. JStr [c]) s)"
| "py_iter _ = Inl TypeError"

section \<open>Configuration and alert rules\<close>

text \<open>
  \<open>config_data\<close> is a dict with a fixed set of keys, each of which may be missing
  (the dict is empty before a configuration is loaded or saved): a record whose
  fields are options, \<open>None\<close> for a missing key. The values have the types
  \<open>save_config_api\<close> and \<open>save_alert_settings\<close> give them. An alert rule is the
  dict stored under a host name in \<open>config_data['alert_settings']\<close>; the two flags
  are kept as their truth values.
\<close>

record alert_rule =
  rule_threshold :: "int option"
  rule_email_enabled :: "bool option"
  rule_syslog_enabled :: "bool option"

type_synonym alert_settings = "(string \<times> alert_rule) list"

record config =
  controller_ip :: "string option"
  username :: "string option"
  password :: "string option"
  polling_interval :: "int option"
  smtp_enabled :: "bool option"
  smtp_server :: "string option"
  smtp_port :: "int option"
  smtp_username :: "string option"
  smtp_password :: "string option"
  smtp_from :: "string option"
  smtp_to :: "string option"
  syslog_enabled :: "bool option"
  syslog_server :: "string option"
  syslog_port :: "int option"
  enable_notifications :: "bool option"
  alert_settings :: "alert_settings option"

definition empty_config :: config where
  "empty_config =
     \<lparr>controller_ip = None, username = None, password = None, polling_interval = None,
      smtp_enabled = None, smtp_server = None, smtp_port = None, smtp_username = None,
      smtp_password = None, smtp_from = None, smtp_to = None, syslog_enabled = None,
      syslog_server = None, syslog_port = None, enable_notifications = None,
      alert_settings = None\<rparr>"

section \<open>The alert evaluator: \<open>check_license_alerts\<close>\<close>

text \<open>
  An alert event is one call \<open>send_alert_notification(hostname, ap_value, threshold,
  alert_type)\<close>. That function catches every exception and changes neither
  \<open>config_data\<close> nor the data being scanned, so the scan is modelled as producing the
  list of calls in the order they are made; the calls are carried out by
  \<open>send_alert_notification\<close> below.
\<close>

datatype channel = Email | Syslog

record alert_event =
  ev_hostname :: string
  ev_ap_value :: int
  ev_threshold :: int
  ev_alert_type :: channel

definition pool_prefix :: string where
  "pool_prefix = ''License Clients License Usage for pool''"

text \<open>
  \<open>client_settings.get('threshold', 0)\<close> and the two flags with their defaults.
\<close>

definition get_threshold :: "alert_rule \<Rightarrow> int" where
  "get_threshold r = (case rule_threshold r of None \<Rightarrow> 0 | Some t \<Rightarrow> t)"

definition get_email_enabled :: "alert_rule \<Rightarrow> bool" where
  "get_email_enabled r = (case rule_email_enabled r of None \<Rightarrow> False | Some b \<Rightarrow> b)"

definition get_syslog_enabled :: "alert_rule \<Rightarrow> bool" where
  "get_syslog_enabled r = (case rule_syslog_enabled r of None \<Rightarrow> False | Some b \<Rightarrow> b)"

text \<open>\<open>not client_settings\<close>: the rule is the empty dict.\<close>

definition rule_is_empty :: "alert_rule \<Rightarrow> bool" where
  "rule_is_empty r =
     (rule_threshold r = None \<and> rule_email_enabled r = None \<and> rule_syslog_enabled r = None)"

text \<open>The comparison with the threshold and the calls it leads to (source lines 418 to 436).\<close>

definition rule_events :: "string \<Rightarrow> int \<Rightarrow> alert_rule \<Rightarrow> alert_event list" where
  "rule_events hostname ap_value client_settings =
     (let threshold = get_threshold client_settings;
          email_enabled = get_email_enabled client_settings;
          syslog_enabled = get_syslog_enabled client_settings
      in if ap_value > threshold \<and> threshold > 0 then
           (if email_enabled then
              [\<lparr>ev_hostname = hostname, ev_ap_value = ap_value, ev_threshold = threshold,
                ev_alert_type = Email\<rparr>]
            else [])
           @ (if syslog_enabled then
                [\<lparr>ev_hostname = hostname, ev_ap_value = ap_value, ev_threshold = threshold,
                  ev_alert_type = Syslog\<rparr>]
              else [])
         else [])"

text \<open>
  The rule lookup \<open>alert_settings.get(hostname)\<close> and what follows it. The keys of
  \<open>alert_settings\<close> are strings, so another hashable value finds no rule; a list or
  a dict is unhashable.
\<close>

fun client_alerts :: "alert_settings \<Rightarrow> json \<Rightarrow> int \<Rightarrow> error + alert_event list" where
  "client_alerts settings (JStr h) ap_value =
     (case map_of settings h of
        None \<Rightarrow> Inr []
      | Some client_settings \<Rightarrow>
          if rule_is_empty client_settings then Inr []
          else Inr (rule_events h ap_value client_settings))"
| "client_alerts settings (JList xs) ap_value = Inl TypeError"
| "client_alerts settings (JObj kvs) ap_value = Inl TypeError"
| "client_alerts settings _ ap_value = Inr []"

text \<open>\<open>client.get('AP', 0)\<close>.\<close>

definition usage_field :: "(string \<times> json) list \<Rightarrow> json" where
  "usage_field kvs = (case map_of kvs ''AP'' of None \<Rightarrow> JInt 0 | Some v \<Rightarrow> v)"

text \<open>
  The body of the inner loop, for one \<open>client\<close> of a pool. \<open>Inl e\<close>: the exception
  \<open>e\<close> was raised in it. A \<open>client\<close> that is not a dict has no \<open>get\<close>.
\<close>

fun check_client :: "alert_settings \<Rightarrow> json \<Rightarrow> error + alert_event list" where
  "check_client settings (JObj kvs) =
     (case map_of kvs ''Hostname'' of
        None \<Rightarrow> Inr []
      | Some hostname \<Rightarrow>
          if truthy hostname \<and> hostname \<noteq> JStr ''TOTAL'' then
            (case py_int (usage_field kvs) of
               Inl e \<Rightarrow> Inl e
             | Inr ap_value \<Rightarrow> client_alerts settings hostname ap_value)
          else Inr [])"
| "check_client settings _ = Inl AttributeError"

text \<open>
  \<open>for client in pool_data\<close>: the events of the rows in order; an exception ends the
  loop and is handed on with the events emitted before it.
\<close>

fun check_clients :: "alert_settings \<Rightarrow> json list \<Rightarrow> alert_event list \<times> error option" where
  "check_clients settings [] = ([], None)"
| "check_clients settings (client # rest) =
     (case check_client settings client of
        Inl e \<Rightarrow> ([], Some e)
      | Inr evs \<Rightarrow>
          (case check_clients settings rest of (evs', r) \<Rightarrow> (evs @ evs', r)))"

text \<open>\<open>for pool_name, pool_data in license_data.items()\<close>.\<close>

fun check_pools :: "alert_settings \<Rightarrow> (string \<times> json) list \<Rightarrow> alert_event list \<times> error option" where
  "check_pools settings [] = ([], None)"
| "check_pools settings ((pool_name, pool_data) # rest) =
     (if startswith pool_name pool_prefix then
        (case py_iter pool_data of
           Inl e \<Rightarrow> ([], Some e)
         | Inr clients \<Rightarrow>
             (case check_clients settings clients of
                (evs, Some e) \<Rightarrow> (evs, Some e)
              | (evs, None) \<Rightarrow>
                  (case check_pools settings rest of (evs', r) \<Rightarrow> (evs @ evs', r))))
      else check_pools settings rest)"

text \<open>
  The whole function. Its \<open>try\<close> block catches every exception and prints it, so the
  result is the list of events emitted and, when the scan was cut short, the exception
  that was caught; nothing is raised to the caller.
\<close>

definition check_license_alerts :: "config \<Rightarrow> json \<Rightarrow> alert_event list \<times> error option" where
  "check_license_alerts config_data license_data =
     (case alert_settings config_data of
        None \<Rightarrow> ([], None)
      | Some settings \<Rightarrow>
          if settings = [] then ([], None)
          else (case license_data of
                  JObj pools \<Rightarrow> check_pools settings pools
                | _ \<Rightarrow> ([], Some AttributeError)))"

section \<open>The outside world\<close>

text \<open>
  What the program reaches over the network, on disk and through the clock is one
  record that every operation takes and returns. The controller answers the HTTP
  requests with the replies listed in \<open>replies\<close>, one per request, and does not answer
  once the list is used up; every request made is appended to \<open>requests\<close>. \<open>disk_ok\<close>
  tells whether files can be written (their contents are not kept). \<open>smtp_ok\<close> tells which steps of an SMTP dialogue
  succeed, and \<open>smtp_log\<close> lists the steps attempted; \<open>udp_ok\<close> and \<open>udp_log\<close> do the
  same for syslog datagrams. \<open>slept\<close> lists the arguments of \<open>time.sleep\<close>, in seconds.
  Time stamps are left out of messages and file names.
\<close>

datatype http_reply =
    ConnectionError
  | HTTPError
  | InvalidJSON
  | Body json

datatype http_request =
    PostLogin string string
  | GetLogout
  | GetShowCommand string json

text \<open>
  The texts of a notification: the subject and the body that
  \<open>send_alert_notification\<close> composes from its arguments and the controller address,
  and the body flattened for syslog.
\<close>

datatype content =
    AlertSubject string
  | AlertMessage string int int channel "string option"
  | SyslogAlert content

record mail =
  mail_from :: string
  mail_to :: string
  mail_subject :: content
  mail_body :: content

datatype smtp_action =
    ConnectSSL string int
  | ConnectPlain string int
  | StartTLS
  | SmtpLogin string string
  | SendMessage mail
  | Quit

record world =
  replies :: "http_reply list"
  requests :: "(string \<times> http_request) list"
  disk_ok :: bool
  smtp_ok :: "smtp_action \<Rightarrow> bool"
  smtp_log :: "smtp_action list"
  udp_ok :: bool
  udp_log :: "(string \<times> int \<times> content) list"
  slept :: "int list"

section \<open>The device session client: \<open>ArubaAPIClient\<close>\<close>

text \<open>
  The class is the same in \<open>app.py\<close> and in \<open>aruba_license_monitor.py\<close>. Its state is
  the session token \<open>uid_aruba\<close>, which is \<open>None\<close> until a login succeeds and then
  whatever JSON value the controller sent, and \<open>cookies\<close>, which is \<open>None\<close> (\<open>False\<close>
  here) or the cookie jar of the session.
\<close>

record client =
  mcr_ip :: string
  uid_aruba :: json
  cookies :: bool

definition new_client :: "string \<Rightarrow> client" where
  "new_client ip = \<lparr>mcr_ip = ip, uid_aruba = JNull, cookies = False\<rparr>"

text \<open>The messages of the results and responses, without their wording.\<close>

datatype reason =
    NotLoggedIn
  | LoginRejected json
  | LoginRequestException
  | LogoutRejected json
  | LogoutRequestException
  | ShowCommandException
  | UsageLoginFailed reason
  | UsageCommandFailed reason
  | UsageException error
  | ControllerNotConfigured
  | RefreshException error
  | HostnameMissing
  | SaveAlertException error
  | SaveConfigException error

text \<open>A result dict: \<open>{"status": "success", ...}\<close> or \<open>{"status": "error", "message": ...}\<close>.\<close>

datatype 'a result =
    Success 'a
  | Failure reason

text \<open>One HTTP request of the session: the next reply, and the request is recorded.\<close>

definition http :: "string \<Rightarrow> http_request \<Rightarrow> world \<Rightarrow> http_reply \<times> world" where
  "http ip r w =
     (case replies w of
        [] \<Rightarrow> (ConnectionError, w\<lparr>requests := requests w @ [(ip, r)]\<rparr>)
      | x # xs \<Rightarrow> (x, w\<lparr>replies := xs, requests := requests w @ [(ip, r)]\<rparr>))"

text \<open>
  \<open>result.get("_global_result", {}).get("status") == "0"\<close>; it raises
  \<open>AttributeError\<close> when the reply, or its \<open>_global_result\<close>, is not a dict.
\<close>

definition global_status_ok :: "json \<Rightarrow> error + bool" where
  "global_status_ok result =
     (case dict_get result ''_global_result'' of
        Inl e \<Rightarrow> Inl e
      | Inr g \<Rightarrow>
          (case dict_get (case g of None \<Rightarrow> JObj [] | Some v \<Rightarrow> v) ''status'' of
             Inl e \<Rightarrow> Inl e
           | Inr st \<Rightarrow> Inr (st = Some (JStr ''0''))))"

text \<open>
  \<open>login\<close>. A failed request, an error status and a body that is not JSON are
  \<open>RequestException\<close>s, which the method turns into an error result (\<open>InvalidJSON\<close>
  is one since \<open>requests\<close> 2.27). Other exceptions leave the method: \<open>Inl\<close>.
\<close>

definition login :: "string \<Rightarrow> string \<Rightarrow> client \<Rightarrow> world \<Rightarrow> (error + unit result) \<times> client \<times> world" where
  "login user pw c w =
     (case http (mcr_ip c) (PostLogin user pw) w of
        (Body result, w') \<Rightarrow>
          (case global_status_ok result of
             Inl e \<Rightarrow> (Inl e, c, w')
           | Inr True \<Rightarrow>
               (case result of
                  JObj kvs \<Rightarrow>
                    (case map_of kvs ''_global_result'' of
                       Some (JObj g) \<Rightarrow>
                         (case map_of g ''UIDARUBA'' of
                            None \<Rightarrow> (Inl KeyError, c, w')
                          | Some uid \<Rightarrow>
                              (Inr (Success ()), c\<lparr>uid_aruba := uid, cookies := True\<rparr>, w'))
                     | _ \<Rightarrow> (Inl KeyError, c, w'))
                | _ \<Rightarrow> (Inl KeyError, c, w'))
           | Inr False \<Rightarrow> (Inr (Failure (LoginRejected result)), c, w'))
      | (_, w') \<Rightarrow> (Inr (Failure LoginRequestException), c, w'))"

definition logout :: "client \<Rightarrow> world \<Rightarrow> (error + unit result) \<times> client \<times> world" where
  "logout c w =
     (if \<not> truthy (uid_aruba c) then (Inr (Failure NotLoggedIn), c, w)
      else
        (case http (mcr_ip c) GetLogout w of
           (Body result, w') \<Rightarrow>
             (case global_status_ok result of
                Inl e \<Rightarrow> (Inl e, c, w')
              | Inr True \<Rightarrow> (Inr (Success ()), c\<lparr>uid_aruba := JNull, cookies := False\<rparr>, w')
              | Inr False \<Rightarrow> (Inr (Failure (LogoutRejected result)), c, w'))
         | (_, w') \<Rightarrow> (Inr (Failure LogoutRequestException), c, w')))"

definition show_command :: "string \<Rightarrow> client \<Rightarrow> world \<Rightarrow> json result \<times> client \<times> world" where
  "show_command command c w =
     (if \<not> truthy (uid_aruba c) then (Failure NotLoggedIn, c, w)
      else
        (case http (mcr_ip c) (GetShowCommand command (uid_aruba c)) w of
           (Body data, w') \<Rightarrow> (Success data, c, w')
         | (_, w') \<Rightarrow> (Failure ShowCommandException, c, w')))"

section \<open>Fetching a snapshot: \<open>get_license_usage\<close>\<close>

text \<open>
  The dict \<open>{"license_usage": ..., "license_summary": ...}\<close> that a successful fetch
  returns and that \<open>license_data\<close> holds afterwards.
\<close>

record snapshot =
  license_usage :: json
  license_summary :: json

definition snapshot_json :: "snapshot \<Rightarrow> json" where
  "snapshot_json d =
     JObj [(''license_usage'', license_usage d), (''license_summary'', license_summary d)]"

text \<open>
  Login, the usage command, the summary command (whose failure gives an empty summary),
  logout. An exception raised on the way is caught by the function's \<open>except\<close> clause
  and becomes an error result.
\<close>

definition get_license_usage :: "string \<Rightarrow> string \<Rightarrow> string \<Rightarrow> world \<Rightarrow> snapshot result \<times> world" where
  "get_license_usage ip user pw w =
     (case login user pw (new_client ip) w of
        (Inl e, c1, w1) \<Rightarrow> (Failure (UsageException e), w1)
      | (Inr (Failure r), c1, w1) \<Rightarrow> (Failure (UsageLoginFailed r), w1)
      | (Inr (Success u), c1, w1) \<Rightarrow>
          (case show_command ''show license-usage'' c1 w1 of
             (Failure r, c2, w2) \<Rightarrow>
               (case logout c2 w2 of
                  (Inl e, c3, w3) \<Rightarrow> (Failure (UsageException e), w3)
                | (Inr x, c3, w3) \<Rightarrow> (Failure (UsageCommandFailed r), w3))
           | (Success usage, c2, w2) \<Rightarrow>
               (case show_command ''show license summary'' c2 w2 of
                  (summary_result, c3, w3) \<Rightarrow>
                    (case logout c3 w3 of
                       (Inl e, c4, w4) \<Rightarrow> (Failure (UsageException e), w4)
                     | (Inr x, c4, w4) \<Rightarrow>
                         (Success \<lparr>license_usage = usage,
                                   license_summary =
                                     (case summary_result of
                                        Success d \<Rightarrow> d
                                      | Failure r \<Rightarrow> JObj [])\<rparr>, w4)))))"

section \<open>The notification dispatcher: \<open>NotificationManager\<close>\<close>

text \<open>
  \<open>smtp_config\<close> and \<open>syslog_config\<close> are empty dicts (\<open>None\<close> here) until
  \<open>configure_smtp\<close> and \<open>configure_syslog\<close> fill them.
\<close>

record smtp_config =
  sc_server :: string
  sc_port :: int
  sc_username :: string
  sc_password :: string
  sc_from_email :: string
  sc_to_emails :: "string list"

record syslog_config =
  sl_server :: string
  sl_port :: int

record notification_manager =
  smtp_config :: "smtp_config option"
  syslog_config :: "syslog_config option"

definition configure_smtp ::
  "notification_manager \<Rightarrow> string \<Rightarrow> int \<Rightarrow> string \<Rightarrow> string \<Rightarrow> string \<Rightarrow> string list
     \<Rightarrow> notification_manager" where
  "configure_smtp nm server port user pw from_email to_emails =
     nm\<lparr>smtp_config := Some \<lparr>sc_server = server, sc_port = port,
                              sc_username = user, sc_password = pw,
                              sc_from_email = from_email, sc_to_emails = to_emails\<rparr>\<rparr>"

definition configure_syslog :: "notification_manager \<Rightarrow> string \<Rightarrow> int \<Rightarrow> notification_manager" where
  "configure_syslog nm server port =
     nm\<lparr>syslog_config := Some \<lparr>sl_server = server, sl_port = port\<rparr>\<rparr>"

text \<open>\<open>', '.join(xs)\<close>.\<close>

fun join_comma :: "string list \<Rightarrow> string" where
  "join_comma [] = []"
| "join_comma [x] = x"
| "join_comma (x # y # zs) = x @ '', '' @ join_comma (y # zs)"

text \<open>
  The steps of an SMTP dialogue in order: each is attempted and recorded; the first
  one that fails raises, which ends the dialogue (\<open>send_email\<close> then returns \<open>False\<close>).
\<close>

fun smtp_run :: "smtp_action list \<Rightarrow> world \<Rightarrow> bool \<times> world" where
  "smtp_run [] w = (True, w)"
| "smtp_run (a # as) w =
     (if smtp_ok w a then smtp_run as (w\<lparr>smtp_log := smtp_log w @ [a]\<rparr>)
      else (False, w\<lparr>smtp_log := smtp_log w @ [a]\<rparr>))"

definition send_email :: "notification_manager \<Rightarrow> content \<Rightarrow> content \<Rightarrow> world \<Rightarrow> bool \<times> world" where
  "send_email nm subject body w =
     (case smtp_config nm of
        None \<Rightarrow> (False, w)
      | Some c \<Rightarrow>
          (let msg = \<lparr>mail_from = sc_from_email c, mail_to = join_comma (sc_to_emails c),
                      mail_subject = subject, mail_body = body\<rparr>
           in if sc_port c = 465 then
                smtp_run [ConnectSSL (sc_server c) (sc_port c),
                          SmtpLogin (sc_username c) (sc_password c), SendMessage msg, Quit] w
              else
                smtp_run [ConnectPlain (sc_server c) (sc_port c), StartTLS,
                          SmtpLogin (sc_username c) (sc_password c), SendMessage msg, Quit] w))"

definition send_syslog :: "notification_manager \<Rightarrow> content \<Rightarrow> world \<Rightarrow> bool \<times> world" where
  "send_syslog nm message w =
     (case syslog_config nm of
        None \<Rightarrow> (False, w)
      | Some c \<Rightarrow> (udp_ok w, w\<lparr>udp_log := udp_log w @ [(sl_server c, sl_port c, message)]\<rparr>))"

section \<open>Sending an alert: \<open>send_alert_notification\<close>\<close>

text \<open>\<open>config_data.get(k, False)\<close> as a condition.\<close>

definition flag :: "bool option \<Rightarrow> bool" where
  "flag b = (case b of None \<Rightarrow> False | Some v \<Rightarrow> v)"

text \<open>
  The configuration on first use (source lines 457 to 466 and 480 to 485): the
  subscripts \<open>config_data['smtp_server']\<close> and so on raise \<open>KeyError\<close> for a missing
  key.
\<close>

definition lazy_configure_smtp :: "config \<Rightarrow> notification_manager \<Rightarrow> error + notification_manager" where
  "lazy_configure_smtp config_data nm =
     (case (smtp_server config_data, smtp_port config_data, smtp_username config_data,
            smtp_password config_data, smtp_from config_data, smtp_to config_data) of
        (Some server, Some port, Some user, Some pw, Some from_email, Some to_email) \<Rightarrow>
          Inr (configure_smtp nm server port user pw from_email [to_email])
      | _ \<Rightarrow> Inl KeyError)"

definition lazy_configure_syslog :: "config \<Rightarrow> notification_manager \<Rightarrow> error + notification_manager" where
  "lazy_configure_syslog config_data nm =
     (case (syslog_server config_data, syslog_port config_data) of
        (Some server, Some port) \<Rightarrow> Inr (configure_syslog nm server port)
      | _ \<Rightarrow> Inl KeyError)"

text \<open>
  The function catches every exception it raises, so it returns the manager and the
  world as they are at that point.
\<close>

definition send_alert_notification ::
  "config \<Rightarrow> alert_event \<Rightarrow> notification_manager \<Rightarrow> world \<Rightarrow> notification_manager \<times> world" where
  "send_alert_notification config_data ev nm w =
     (let alert_message = AlertMessage (ev_hostname ev) (ev_ap_value ev) (ev_threshold ev)
                            (ev_alert_type ev) (controller_ip config_data)
      in case ev_alert_type ev of
           Email \<Rightarrow>
             if flag (smtp_enabled config_data) then
               (case (if smtp_config nm = None then lazy_configure_smtp config_data nm
                      else Inr nm) of
                  Inl e \<Rightarrow> (nm, w)
                | Inr nm' \<Rightarrow>
                    (nm', snd (send_email nm' (AlertSubject (ev_hostname ev)) alert_message w)))
             else (nm, w)
         | Syslog \<Rightarrow>
             if flag (syslog_enabled config_data) then
               (case (if syslog_config nm = None then lazy_configure_syslog config_data nm
                      else Inr nm) of
                  Inl e \<Rightarrow> (nm, w)
                | Inr nm' \<Rightarrow> (nm', snd (send_syslog nm' (SyslogAlert alert_message) w)))
             else (nm, w))"

text \<open>The calls that a scan makes, carried out in order.\<close>

fun dispatch_alerts ::
  "config \<Rightarrow> alert_event list \<Rightarrow> notification_manager \<Rightarrow> world \<Rightarrow> notification_manager \<times> world" where
  "dispatch_alerts config_data [] nm w = (nm, w)"
| "dispatch_alerts config_data (ev # evs) nm w =
     (case send_alert_notification config_data ev nm w of
        (nm', w') \<Rightarrow> dispatch_alerts config_data evs nm' w')"

section \<open>The application state and the poll scheduler\<close>

text \<open>
  The module's global variables. \<open>license_data\<close> is the empty dict (\<open>None\<close> here)
  until a fetch succeeds. The threads themselves are not modelled: the operations below
  are the code one thread runs, with no other thread running in between.
\<close>

record app_state =
  config_data :: config
  license_data :: "snapshot option"
  notification_manager :: notification_manager
  polling_active :: bool

text \<open>\<open>config_data.get(k)\<close> as a condition: the key is there and its string is not empty.\<close>

definition present :: "string option \<Rightarrow> bool" where
  "present v = (case v of None \<Rightarrow> False | Some x \<Rightarrow> x \<noteq> [])"

text \<open>
  \<open>time.sleep(secs)\<close>: a negative argument raises \<open>ValueError\<close>. (An argument
  beyond the range of the platform's clock raises too; that bound is not modelled.)
\<close>

definition sleep :: "int \<Rightarrow> world \<Rightarrow> error + world" where
  "sleep secs w = (if secs < 0 then Inl ValueError else Inr (w\<lparr>slept := slept w @ [secs]\<rparr>))"

text \<open>
  \<open>send_notifications(license_data)\<close> looks for the key \<open>_data\<close> in its argument.
  The argument is the two-key dict that \<open>get_license_usage\<close> built, so the list of
  licences stays empty and the function returns before it composes or sends anything.
\<close>

definition send_notifications :: "snapshot \<Rightarrow> world \<Rightarrow> world" where
  "send_notifications d w = w"

text \<open>
  The statements of one iteration of \<open>while polling_active\<close> up to the interval sleep
  (source lines 345 to 380): the first component is the exception raised, if any.
  Writing the snapshot file raises \<open>OSError\<close> when the disk cannot be written.
\<close>

definition poll_fetch :: "app_state \<Rightarrow> world \<Rightarrow> error option \<times> app_state \<times> world" where
  "poll_fetch st w =
     (let cfg = config_data st in
      if present (controller_ip cfg) \<and> present (username cfg) \<and> present (password cfg) then
        (case get_license_usage (the (controller_ip cfg)) (the (username cfg))
                (the (password cfg)) w of
           (Success d, w1) \<Rightarrow>
             (let st1 = st\<lparr>license_data := Some d\<rparr> in
              if \<not> disk_ok w1 then (Some OSError, st1, w1)
              else
                (case dispatch_alerts cfg (fst (check_license_alerts cfg (license_usage d)))
                        (notification_manager st1) w1 of
                   (nm, w2) \<Rightarrow>
                     (None, st1\<lparr>notification_manager := nm\<rparr>,
                      if flag (enable_notifications cfg) then send_notifications d w2 else w2)))
         | (Failure r, w1) \<Rightarrow> (None, st, w1))
      else (None, st, w))"

text \<open>
  One whole iteration: the fetch, then \<open>time.sleep(interval * 60)\<close> with the
  configured interval or 86400; the \<open>except\<close> clause sleeps 60 seconds instead when
  any of this raised.
\<close>

definition poll_cycle :: "app_state \<Rightarrow> world \<Rightarrow> app_state \<times> world" where
  "poll_cycle st w =
     (case poll_fetch st w of
        (Some e, st', w') \<Rightarrow> (st', w'\<lparr>slept := slept w' @ [60]\<rparr>)
      | (None, st', w') \<Rightarrow>
          (case sleep ((case polling_interval (config_data st') of
                          None \<Rightarrow> 86400 | Some i \<Rightarrow> i) * 60) w' of
             Inl e \<Rightarrow> (st', w'\<lparr>slept := slept w' @ [60]\<rparr>)
           | Inr w'' \<Rightarrow> (st', w'')))"

section \<open>The request handlers\<close>

text \<open>
  \<open>refresh_license\<close>. It passes the whole snapshot dict to \<open>check_license_alerts\<close>.
  A missing \<open>username\<close> or \<open>password\<close> raises \<open>KeyError\<close>, which the handler
  turns into an error response.
\<close>

definition refresh_license :: "app_state \<Rightarrow> world \<Rightarrow> unit result \<times> app_state \<times> world" where
  "refresh_license st w =
     (let cfg = config_data st in
      if \<not> present (controller_ip cfg) then (Failure ControllerNotConfigured, st, w)
      else
        (case (controller_ip cfg, username cfg, password cfg) of
           (Some ip, Some user, Some pw) \<Rightarrow>
             (case get_license_usage ip user pw w of
                (Success d, w1) \<Rightarrow>
                  (case dispatch_alerts cfg (fst (check_license_alerts cfg (snapshot_json d)))
                          (notification_manager st) w1 of
                     (nm, w2) \<Rightarrow>
                       (Success (), st\<lparr>license_data := Some d, notification_manager := nm\<rparr>, w2))
              | (Failure r, w1) \<Rightarrow> (Failure r, st, w1))
         | _ \<Rightarrow> (Failure (RefreshException KeyError), st, w)))"

text \<open>
  The form of \<open>save_config_api\<close>: \<open>request.form.get(k, default)\<close>, the same
  through \<open>int\<close>, and \<open>request.form.get(k) == 'on'\<close>.
\<close>

type_synonym form = "(string \<times> string) list"

definition form_str :: "form \<Rightarrow> string \<Rightarrow> string" where
  "form_str f k = (case map_of f k of None \<Rightarrow> [] | Some v \<Rightarrow> v)"

definition form_int :: "form \<Rightarrow> string \<Rightarrow> int \<Rightarrow> error + int" where
  "form_int f k d = (case map_of f k of None \<Rightarrow> Inr d | Some v \<Rightarrow> int_of_str v)"

definition form_on :: "form \<Rightarrow> string \<Rightarrow> bool" where
  "form_on f k = (map_of f k = Some ''on'')"

text \<open>\<open>[email.strip() for email in smtp_to.split(',') if email.strip()]\<close>.\<close>

definition recipients :: "string \<Rightarrow> string list" where
  "recipients to_field = filter (\<lambda>email. email \<noteq> []) (map strip (split_comma to_field))"

text \<open>
  \<open>save_config_api\<close>. The new dict is built from the form (a field that \<open>int\<close>
  rejects raises before anything is changed), takes over \<open>alert_settings\<close> when the
  old dict has the key, and replaces \<open>config_data\<close>; then the file is written, the
  notification manager is configured for the enabled channels, and polling is switched
  on when a controller address is set.
\<close>

definition save_config_api :: "form \<Rightarrow> app_state \<Rightarrow> world \<Rightarrow> unit result \<times> app_state \<times> world" where
  "save_config_api f st w =
     (case form_int f ''polling_interval'' 86400 of
        Inl e \<Rightarrow> (Failure (SaveConfigException e), st, w)
      | Inr interval \<Rightarrow>
     (case form_int f ''smtp_port'' 587 of
        Inl e \<Rightarrow> (Failure (SaveConfigException e), st, w)
      | Inr mail_port \<Rightarrow>
     (case form_int f ''syslog_port'' 514 of
        Inl e \<Rightarrow> (Failure (SaveConfigException e), st, w)
      | Inr log_port \<Rightarrow>
          (let new_config =
                 \<lparr>controller_ip = Some (form_str f ''controller_ip''),
                  username = Some (form_str f ''username''),
                  password = Some (form_str f ''password''),
                  polling_interval = Some interval,
                  smtp_enabled = Some (form_on f ''smtp_enabled''),
                  smtp_server = Some (form_str f ''smtp_server''),
                  smtp_port = Some mail_port,
                  smtp_username = Some (form_str f ''smtp_username''),
                  smtp_password = Some (form_str f ''smtp_password''),
                  smtp_from = Some (form_str f ''smtp_from''),
                  smtp_to = Some (form_str f ''smtp_to''),
                  syslog_enabled = Some (form_on f ''syslog_enabled''),
                  syslog_server = Some (form_str f ''syslog_server''),
                  syslog_port = Some log_port,
                  enable_notifications = Some (form_on f ''enable_notifications''),
                  alert_settings = alert_settings (config_data st)\<rparr>;
               st1 = st\<lparr>config_data := new_config\<rparr>
           in if \<not> disk_ok w then (Failure (SaveConfigException OSError), st1, w)
              else
                (let nm1 = (if form_on f ''smtp_enabled'' then
                              configure_smtp (notification_manager st1)
                                (form_str f ''smtp_server'') mail_port
                                (form_str f ''smtp_username'') (form_str f ''smtp_password'')
                                (form_str f ''smtp_from'') (recipients (form_str f ''smtp_to''))
                            else notification_manager st1);
                     nm2 = (if form_on f ''syslog_enabled'' then
                              configure_syslog nm1 (form_str f ''syslog_server'') log_port
                            else nm1)
                 in (Success (),
                     st1\<lparr>notification_manager := nm2,
                         polling_active := (if form_str f ''controller_ip'' \<noteq> [] then True
                                            else polling_active st1)\<rparr>,
                     w))))))"




section \<open>Initial values\<close>

text \<open>
  The globals as the module sets them when it is loaded, and a world in which nothing
  has happened yet, the disk and the mail and syslog servers work, and the controller
  answers with the given replies.
\<close>

definition initial_state :: app_state where
  "initial_state =
     \<lparr>config_data = empty_config, license_data = None,
      notification_manager = \<lparr>smtp_config = None, syslog_config = None\<rparr>,
      polling_active = False\<rparr>"

definition fresh_world :: "http_reply list \<Rightarrow> world" where
  "fresh_world rs =
     \<lparr>replies = rs, requests = [], disk_ok = True, smtp_ok = (\<lambda>a. True), smtp_log = [],
      udp_ok = True, udp_log = [], slept = []\<rparr>"

section \<open>Properties of the alert evaluator\<close>

text \<open>Evaluation of the Python primitives on concrete strings.\<close>

lemmas py_eval =
  int_of_str_def strip_def is_space_def parse_unsigned_def is_digit_def digit_val_def
  usage_field_def startswith_def pool_prefix_def

text \<open>
  Both loops run their first part and then, unless that part raised, the second part.
\<close>

lemma check_clients_append:
  "check_clients s (xs @ ys) =
     (case check_clients s xs of
        (evs, None) \<Rightarrow> (case check_clients s ys of (evs', r) \<Rightarrow> (evs @ evs', r))
      | (evs, Some e) \<Rightarrow> (evs, Some e))"
  by (induction xs) (auto split: sum.splits prod.splits option.splits)

lemma check_pools_append:
  "check_pools s (ps @ qs) =
     (case check_pools s ps of
        (evs, None) \<Rightarrow> (case check_pools s qs of (evs', r) \<Rightarrow> (evs @ evs', r))
      | (evs, Some e) \<Rightarrow> (evs, Some e))"
  by (induction ps) (auto split: sum.splits prod.splits option.splits)

lemma check_clients_skip:
  "check_client s c = Inr [] \<Longrightarrow> check_clients s (rows_before @ c # rows_after) = check_clients s (rows_before @ rows_after)"
  by (simp add: check_clients_append split: prod.splits option.splits)

lemma check_pools_cong_pool:
  "check_clients s xs = check_clients s ys \<Longrightarrow>
   check_pools s (pools_before @ (name, JList xs) # pools_after) = check_pools s (pools_before @ (name, JList ys) # pools_after)"
  by (simp add: check_pools_append split: prod.splits option.splits)







text \<open>
  Claim C4. A row without \<open>Hostname\<close>, or whose \<open>Hostname\<close> is \<open>TOTAL\<close>, emits
  nothing and raises nothing whatever its other fields and whatever rules are stored,
  and taking the row out of the data leaves the result of the whole scan as it is.
\<close>

theorem total_and_unnamed_rows_not_evaluated:
  assumes "map_of kvs ''Hostname'' = None \<or> map_of kvs ''Hostname'' = Some (JStr ''TOTAL'')"
  shows "check_client settings (JObj kvs) = Inr [] \<and>
         check_license_alerts cfg (JObj (pools_before @ (name, JList (rows_before @ JObj kvs # rows_after)) # pools_after))
           = check_license_alerts cfg (JObj (pools_before @ (name, JList (rows_before @ rows_after)) # pools_after))"
proof -
  have skip: "check_client s (JObj kvs) = Inr []" for s
    using assms by auto
  have "check_pools s (pools_before @ (name, JList (rows_before @ JObj kvs # rows_after)) # pools_after)
          = check_pools s (pools_before @ (name, JList (rows_before @ rows_after)) # pools_after)" for s
    by (rule check_pools_cong_pool) (rule check_clients_skip [OF skip])
  then show ?thesis
    using skip by (simp add: check_license_alerts_def split: option.splits)
qed

text \<open>
  The row \<open>TOTAL\<close> with usage 999 and a rule stored under the name \<open>TOTAL\<close>: no event.
\<close>

theorem total_and_unnamed_rows_not_evaluated_witness:
  "map_of [(''Hostname'', JStr ''TOTAL''), (''AP'', JStr ''999'')] ''Hostname''
     = Some (JStr ''TOTAL'')
   \<and> check_license_alerts
       (empty_config\<lparr>alert_settings := Some [(''TOTAL'',
          \<lparr>rule_threshold = Some 10, rule_email_enabled = Some True,
            rule_syslog_enabled = Some True\<rparr>)]\<rparr>)
       (JObj [(''License Clients License Usage for pool 1'',
          JList [JObj [(''Hostname'', JStr ''TOTAL''), (''AP'', JStr ''999'')]])])
     = ([], None)"
  using total_and_unnamed_rows_not_evaluated
    [where kvs = "[(''Hostname'', JStr ''TOTAL''), (''AP'', JStr ''999'')]"
       and cfg = "empty_config\<lparr>alert_settings := Some [(''TOTAL'',
          \<lparr>rule_threshold = Some 10, rule_email_enabled = Some True,
            rule_syslog_enabled = Some True\<rparr>)]\<rparr>"
       and pools_before = "[]" and rows_before = "[]" and rows_after = "[]" and pools_after = "[]"
       and name = "''License Clients License Usage for pool 1''"]
  by (simp add: check_license_alerts_def empty_config_def py_eval)

section \<open>Properties of the session client\<close>

text \<open>
  Claim C10. On a client that has not logged in (\<open>uid_aruba\<close> is \<open>None\<close>, as in a new
  client), \<open>show_command\<close> and \<open>logout\<close> return the error result "not logged in",
  make no request (the world, with its list of requests, is the one given) and leave
  the client as it is. A login that does not succeed leaves the client as it is too, so
  this holds until the first successful login.
\<close>

theorem show_command_and_logout_before_login:
  assumes "uid_aruba c = JNull"
  shows "show_command command c w = (Failure NotLoggedIn, c, w)
       \<and> logout c w = (Inr (Failure NotLoggedIn), c, w)
       \<and> (fst (login user pw c w) \<noteq> Inr (Success ()) \<longrightarrow>
            fst (snd (login user pw c w)) = c)"
  using assms
  by (auto simp: show_command_def logout_def login_def http_def
      split: list.splits http_reply.splits sum.splits bool.splits json.splits
        option.splits prod.splits)

theorem show_command_and_logout_before_login_witness:
  "uid_aruba (new_client ''10.0.0.1'') = JNull
   \<and> show_command ''show license-usage'' (new_client ''10.0.0.1'') (fresh_world [Body JNull])
       = (Failure NotLoggedIn, new_client ''10.0.0.1'', fresh_world [Body JNull])
   \<and> logout (new_client ''10.0.0.1'') (fresh_world [Body JNull])
       = (Inr (Failure NotLoggedIn), new_client ''10.0.0.1'', fresh_world [Body JNull])
   \<and> fst (login ''admin'' ''wrong'' (new_client ''10.0.0.1'') (fresh_world [HTTPError]))
       = Inr (Failure LoginRequestException)
   \<and> fst (snd (login ''admin'' ''wrong'' (new_client ''10.0.0.1'') (fresh_world [HTTPError])))
       = new_client ''10.0.0.1''"
  using show_command_and_logout_before_login
          [where c = "new_client ''10.0.0.1''" and command = "''show license-usage''"
             and w = "fresh_world [Body JNull]"]
        show_command_and_logout_before_login
          [where c = "new_client ''10.0.0.1''" and user = "''admin''" and pw = "''wrong''"
             and w = "fresh_world [HTTPError]"]
  by (simp add: new_client_def login_def http_def fresh_world_def)

section \<open>Properties of the notification dispatcher\<close>




section \<open>Properties of the poll scheduler and of the refresh\<close>

text \<open>
  Claim C3 does not hold on the code. \<open>login\<close>, \<open>show_command\<close> and
  \<open>get_license_usage\<close> turn every transport, authentication and command error into an
  error result, so nothing is raised in the loop body and the \<open>except\<close> clause with its
  60 seconds is not reached: with an interval of 1440 minutes and a controller that
  cannot be reached, the iteration sleeps 86400 seconds.
\<close>

theorem poll_cycle_failed_fetch_sleeps_full_interval:
  "fst (get_license_usage ''10.0.0.1'' ''admin'' ''secret'' (fresh_world [ConnectionError]))
     = Failure (UsageLoginFailed LoginRequestException)
   \<and> slept (snd (poll_cycle
        (initial_state\<lparr>config_data := empty_config\<lparr>controller_ip := Some ''10.0.0.1'',
            username := Some ''admin'', password := Some ''secret'',
            polling_interval := Some 1440\<rparr>\<rparr>)
        (fresh_world [ConnectionError]))) = [86400]"
  by (simp add: get_license_usage_def login_def http_def new_client_def fresh_world_def
      poll_cycle_def poll_fetch_def Let_def present_def initial_state_def empty_config_def
      sleep_def)

text \<open>
  Claim C7. When the fetch of a poll iteration or of a manual refresh fails, whether
  by a login error, a command error or an exception inside \<open>get_license_usage\<close>,
  \<open>license_data\<close> afterwards is what it was before.
\<close>

theorem failed_fetch_keeps_license_data:
  assumes "controller_ip (config_data st) = Some ip"
    and "username (config_data st) = Some user"
    and "password (config_data st) = Some pw"
    and "fst (get_license_usage ip user pw w) = Failure r"
  shows "license_data (fst (poll_cycle st w)) = license_data st
       \<and> license_data (fst (snd (refresh_license st w))) = license_data st"
proof -
  obtain w1 where g: "get_license_usage ip user pw w = (Failure r, w1)"
    using assms(4) by (cases "get_license_usage ip user pw w") auto
  have "fst (snd (poll_fetch st w)) = st"
    using assms(1-3) g by (simp add: poll_fetch_def Let_def)
  then have a: "license_data (fst (poll_cycle st w)) = license_data st"
    by (cases "poll_fetch st w")
       (auto simp: poll_cycle_def sleep_def split: option.splits sum.splits if_splits)
  have b: "fst (snd (refresh_license st w)) = st"
    using assms(1-3) g by (simp add: refresh_license_def Let_def)
  show ?thesis using a b by simp
qed

text \<open>An earlier snapshot stays in place when the controller cannot be reached.\<close>

theorem failed_fetch_keeps_license_data_witness:
  "fst (get_license_usage ''10.0.0.1'' ''admin'' ''secret'' (fresh_world [ConnectionError]))
     = Failure (UsageLoginFailed LoginRequestException)
   \<and> license_data (fst (poll_cycle
        (initial_state\<lparr>config_data := empty_config\<lparr>controller_ip := Some ''10.0.0.1'',
            username := Some ''admin'', password := Some ''secret''\<rparr>,
          license_data := Some \<lparr>license_usage = JObj [], license_summary = JObj []\<rparr>\<rparr>)
        (fresh_world [ConnectionError])))
     = Some \<lparr>license_usage = JObj [], license_summary = JObj []\<rparr>
   \<and> license_data (fst (snd (refresh_license
        (initial_state\<lparr>config_data := empty_config\<lparr>controller_ip := Some ''10.0.0.1'',
            username := Some ''admin'', password := Some ''secret''\<rparr>,
          license_data := Some \<lparr>license_usage = JObj [], license_summary = JObj []\<rparr>\<rparr>)
        (fresh_world [ConnectionError]))))
     = Some \<lparr>license_usage = JObj [], license_summary = JObj []\<rparr>"
  using failed_fetch_keeps_license_data
    [where st = "initial_state\<lparr>config_data := empty_config\<lparr>controller_ip := Some ''10.0.0.1'',
            username := Some ''admin'', password := Some ''secret''\<rparr>,
          license_data := Some \<lparr>license_usage = JObj [], license_summary = JObj []\<rparr>\<rparr>"
       and ip = "''10.0.0.1''" and user = "''admin''" and pw = "''secret''"
       and w = "fresh_world [ConnectionError]" and r = "UsageLoginFailed LoginRequestException"]
  by (simp add: get_license_usage_def login_def http_def new_client_def fresh_world_def
      initial_state_def empty_config_def)

text \<open>
  A refresh that answers with an error, for whatever reason, has changed nothing in
  the state.
\<close>

lemma refresh_error_keeps_state:
  "fst (refresh_license st w) \<noteq> Success () \<Longrightarrow> fst (snd (refresh_license st w)) = st"
  by (auto simp: refresh_license_def Let_def split: option.splits prod.splits result.splits)

section \<open>Properties of the configuration handlers\<close>

text \<open>
  Claim C8. Whatever the form holds and whether or not the request succeeds, the rule
  map of the configuration after \<open>save_config_api\<close> is the rule map before it: every
  host name has the rule it had, and a missing map stays missing.
\<close>

theorem save_config_api_keeps_alert_settings:
  "alert_settings (config_data (fst (snd (save_config_api f st w))))
     = alert_settings (config_data st)"
  by (simp add: save_config_api_def Let_def split: sum.splits)




end
